theory Spec2Isabelle
  imports Complex_Main "HOL-Library.Multiset" "HOL-Library.Char_ord" "HOL-Library.List_Lexorder"
begin

section \<open>Commander Tracker: the match form and the dashboard of \<^verbatim>\<open>app.py\<close>\<close>

text \<open>
  \<^verbatim>\<open>app.py\<close> is one Streamlit script. Two parts of it carry logic: the block that
  runs when the match form is submitted (lines 207-252), and the dashboard's aggregations
  over the history frame (lines 84-131). Data frames are modelled as lists of records,
  one record per frame row, in frame order. The columns \<^verbatim>\<open>player_name\<close>,
  \<^verbatim>\<open>match_id\<close>, \<^verbatim>\<open>is_winner\<close> and \<^verbatim>\<open>color_identity\<close> are taken non-null, as the
  data model has them (pandas would drop null group keys and null categories); the
  column \<^verbatim>\<open>date\<close> may hold nulls.
\<close>

subsection \<open>Frames\<close>

text \<open>
  A cell of an identifier column of \<^verbatim>\<open>players\<close> or \<^verbatim>\<open>decks\<close>. The schema of the
  store is not in the repository: an integer column makes a frame column of dtype int64,
  whose cells \<^verbatim>\<open>.values[0]\<close> returns as \<^verbatim>\<open>numpy.int64\<close>; a text column (a UUID, say)
  makes an object column, whose cells are Python strings.
\<close>

datatype ident = IntId int | StrId string

text \<open>\<^verbatim>\<open>df_players\<close>: the columns \<^verbatim>\<open>player_id\<close> and \<^verbatim>\<open>name\<close>.\<close>

record player =
  player_id :: ident
  name :: string

text \<open>
  A row of the table \<^verbatim>\<open>decks\<close> as fetched. The column \<^verbatim>\<open>player_id\<close> of
  a deck (its owner) is the field \<open>deck_player_id\<close> here, since a record field name
  is global.
\<close>

record deck =
  deck_id :: ident
  deck_name :: string
  deck_player_id :: ident

text \<open>
  \<^verbatim>\<open>df_decks\<close> as the form receives it: lines 59-64 added \<^verbatim>\<open>owner_name\<close> (missing
  where the owner is not in \<^verbatim>\<open>df_players\<close>) and \<^verbatim>\<open>display_name\<close>, the deck name
  followed by the owner name in parentheses, and ordered the rows by \<^verbatim>\<open>display_name\<close>.
  The submit block reads the columns \<^verbatim>\<open>display_name\<close> and \<^verbatim>\<open>deck_id\<close> only.
\<close>

record deck_row = deck +
  owner_name :: "string option"
  display_name :: string

text \<open>One seat of the form: the dictionary appended to \<^verbatim>\<open>participantes\<close> (lines 198-203).\<close>

record participante =
  nome :: string
  deck_display :: string
  venceu :: bool
  turno :: int

text \<open>
  The payload of one \<^verbatim>\<open>match_participants\<close> row (lines 235-242). The two identifiers
  are the cells as \<^verbatim>\<open>.values[0]\<close> returned them: nothing converts them (only
  \<^verbatim>\<open>turno\<close> goes through \<^verbatim>\<open>int()\<close>), so \<open>IntId\<close> here is a \<^verbatim>\<open>numpy.int64\<close>.
  \<^verbatim>\<open>match_id\<close> is the Python integer of the store's JSON answer.
\<close>

record participant_row =
  p_match_id :: int
  p_player_id :: ident
  p_deck_id :: ident
  p_is_winner :: bool
  p_turn_eliminated :: int
  rank :: int

text \<open>A row of \<^verbatim>\<open>matches\<close>: the payload of lines 217-220 and the identifier the store assigns.\<close>

record match_row =
  m_match_id :: int
  m_date :: string
  m_notes :: string

subsection \<open>The store\<close>

text \<open>
  The hosted store is outside the repository. Its two tables written by the form are
  lists of rows; \<open>next_match_id\<close> is the auto-increment counter of \<^verbatim>\<open>matches\<close>.
  Whether a call to the store raises is not decided by the script, so it is an input:
  \<open>faults\<close> says which of the two inserts the store answers with an error.
\<close>

record store =
  matches :: "match_row list"
  match_participants :: "participant_row list"
  next_match_id :: int

record faults =
  matches_insert_raises :: bool
  participants_insert_raises :: bool

datatype py_exception = IndexError | APIError | ValueError | TypeError

text \<open>
  What the submit block shows: the message of line 212, or the message of line 252 with
  the exception it caught. Success (line 248) carries the new match identifier.
\<close>

datatype form_error = SelecionePeloMenos2 | ErroAoGravar py_exception

text \<open>\<^verbatim>\<open>supabase.table("matches").insert(dados_partida).execute()\<close> and the read of
  \<^verbatim>\<open>res_match.data[0]['match_id']\<close> (lines 221-224). The payload holds two strings.\<close>

definition insert_match :: "faults \<Rightarrow> store \<Rightarrow> string \<Rightarrow> string \<Rightarrow> py_exception + (int \<times> store)" where
  "insert_match fl db data_jogo notas =
     (if matches_insert_raises fl then Inl APIError
      else Inr (next_match_id db,
                db\<lparr>matches := matches db @ [\<lparr>m_match_id = next_match_id db, m_date = data_jogo, m_notes = notas\<rparr>],
                   next_match_id := next_match_id db + 1\<rparr>))"

text \<open>
  The client writes the payload as JSON before it sends anything. The encoder knows
  Python's own integers, booleans and strings, and raises TypeError on a
  \<^verbatim>\<open>numpy.int64\<close>.
\<close>

fun json_serializable :: "ident \<Rightarrow> bool" where
  "json_serializable (StrId s) = True"
| "json_serializable (IntId n) = False"

definition payload_serializable :: "participant_row list \<Rightarrow> bool" where
  "payload_serializable dados =
     list_all (\<lambda>row. json_serializable (p_player_id row) \<and> json_serializable (p_deck_id row)) dados"

text \<open>\<^verbatim>\<open>supabase.table("match_participants").insert(dados_participantes).execute()\<close>
  (line 245): the payload is encoded, then sent in one batch call, which writes every
  row or none.\<close>

definition insert_participants :: "faults \<Rightarrow> store \<Rightarrow> participant_row list \<Rightarrow> py_exception + store" where
  "insert_participants fl db dados =
     (if \<not> payload_serializable dados then Inl TypeError
      else if participants_insert_raises fl then Inl APIError
      else Inr (db\<lparr>match_participants := match_participants db @ dados\<rparr>))"

subsection \<open>The submit block (lines 207-252)\<close>

text \<open>Line 209: the seats with a player and a deck selected.\<close>

definition validos_of :: "participante list \<Rightarrow> participante list" where
  "validos_of participantes = filter (\<lambda>p. nome p \<noteq> '''' \<and> deck_display p \<noteq> '''') participantes"

text \<open>\<^verbatim>\<open>.values[0]\<close>: the first element, IndexError on an empty array.\<close>

definition values0 :: "'a list \<Rightarrow> py_exception + 'a" where
  "values0 xs = (case xs of [] \<Rightarrow> Inl IndexError | x # _ \<Rightarrow> Inr x)"

text \<open>Line 232: \<^verbatim>\<open>df_players[df_players['name'] == p['nome']]['player_id'].values[0]\<close>.\<close>

definition lookup_pid :: "player list \<Rightarrow> string \<Rightarrow> py_exception + ident" where
  "lookup_pid df_players nm = values0 (map player_id (filter (\<lambda>r. name r = nm) df_players))"

text \<open>Line 233: \<^verbatim>\<open>df_decks[df_decks['display_name'] == p['deck_display']]['deck_id'].values[0]\<close>.\<close>

definition lookup_did :: "deck_row list \<Rightarrow> string \<Rightarrow> py_exception + ident" where
  "lookup_did df_decks dn = values0 (map deck_id (filter (\<lambda>d. display_name d = dn) df_decks))"

text \<open>
  The loop of lines 230-242. The list it appends to is local, so an exception in any
  iteration leaves nothing of it behind: the model returns the exception or the whole list.
  \<^verbatim>\<open>int(p['turno'])\<close> is the identity on the integer the number input returns.
\<close>

fun preparar :: "player list \<Rightarrow> deck_row list \<Rightarrow> int \<Rightarrow> participante list \<Rightarrow> py_exception + participant_row list" where
  "preparar df_players df_decks novo_match_id [] = Inr []"
| "preparar df_players df_decks novo_match_id (p # ps) =
     (case lookup_pid df_players (nome p) of
        Inl e \<Rightarrow> Inl e
      | Inr pid \<Rightarrow>
         (case lookup_did df_decks (deck_display p) of
            Inl e \<Rightarrow> Inl e
          | Inr did \<Rightarrow>
             (case preparar df_players df_decks novo_match_id ps of
                Inl e \<Rightarrow> Inl e
              | Inr dados \<Rightarrow>
                  Inr (\<lparr>p_match_id = novo_match_id, p_player_id = pid, p_deck_id = did,
                        p_is_winner = venceu p, p_turn_eliminated = turno p,
                        rank = (if venceu p then 1 else 0)\<rparr> # dados))))"

text \<open>
  The submit block. It returns what the user is shown and the store as the call leaves
  it. The \<^verbatim>\<open>except\<close> of line 251 catches every exception of the \<^verbatim>\<open>try\<close> and
  undoes nothing.
\<close>

definition record_match ::
  "faults \<Rightarrow> player list \<Rightarrow> deck_row list \<Rightarrow> string \<Rightarrow> string \<Rightarrow> participante list \<Rightarrow> store
    \<Rightarrow> (form_error + int) \<times> store" where
  "record_match fl df_players df_decks data_jogo notas participantes db =
     (let validos = validos_of participantes in
      if length validos < 2 then (Inl SelecionePeloMenos2, db)
      else
        (case insert_match fl db data_jogo notas of
           Inl e \<Rightarrow> (Inl (ErroAoGravar e), db)
         | Inr (novo_match_id, db1) \<Rightarrow>
            (case preparar df_players df_decks novo_match_id validos of
               Inl e \<Rightarrow> (Inl (ErroAoGravar e), db1)
             | Inr dados_participantes \<Rightarrow>
                (case insert_participants fl db1 dados_participantes of
                   Inl e \<Rightarrow> (Inl (ErroAoGravar e), db1)
                 | Inr db2 \<Rightarrow> (Inr novo_match_id, db2)))))"

subsection \<open>The dashboard (lines 84-131)\<close>

text \<open>
  A row of \<^verbatim>\<open>view_full_history\<close>, with the columns the dashboard reads. A cell of
  \<^verbatim>\<open>date\<close> is a string or null (\<open>None\<close>).
\<close>

record history_row =
  match_id :: int
  date :: "string option"
  player_name :: string
  h_deck_name :: string
  is_winner :: bool
  color_identity :: string

text \<open>An entry of a datetime column: a timestamp (year, month, day) or not-a-time.\<close>

datatype datetime = Timestamp int nat nat | NaT

text \<open>\<^verbatim>\<open>.dt.year\<close>: the year of a timestamp, NaN (\<open>None\<close>) for not-a-time.\<close>

fun dt_year :: "datetime \<Rightarrow> int option" where
  "dt_year (Timestamp y m d) = Some y"
| "dt_year NaT = None"

text \<open>
  \<^verbatim>\<open>pd.to_datetime\<close> on one cell, with its default \<^verbatim>\<open>errors='raise'\<close>. A null and
  the empty string become not-a-time and raise nothing. The parser of a non-empty string
  is pandas' own and is a parameter: it answers a timestamp, not-a-time (as for the
  string \<^verbatim>\<open>NaT\<close>), or \<open>None\<close> where pandas raises (pandas settles on one format for
  the column; \<open>parse\<close> stands for the parser of that format).
\<close>

definition to_datetime_cell :: "(string \<Rightarrow> datetime option) \<Rightarrow> string option \<Rightarrow> datetime option" where
  "to_datetime_cell parse c =
     (case c of None \<Rightarrow> Some NaT | Some s \<Rightarrow> (if s = '''' then Some NaT else parse s))"

text \<open>\<^verbatim>\<open>pd.to_datetime(column)\<close>: one cell that raises makes the call raise.\<close>

definition to_datetime :: "(string \<Rightarrow> datetime option) \<Rightarrow> string option list \<Rightarrow> py_exception + datetime list" where
  "to_datetime parse col =
     (case those (map (to_datetime_cell parse) col) of None \<Rightarrow> Inl ValueError | Some ts \<Rightarrow> Inr ts)"

text \<open>
  The entries of the select box of line 85: \<^verbatim>\<open>Todos\<close>, a year of the history, or the
  entry NaN that the box holds when a date of the history is not-a-time.
\<close>

datatype ano = Todos | Ano int | AnoNaN

text \<open>
  Line 84: \<^verbatim>\<open>pd.to_datetime(df_history['date']).dt.year.unique()\<close>, the distinct years
  in order of first appearance. \<^verbatim>\<open>sorted(..., reverse=True)\<close> then orders them for the
  select box; the order is not modelled, since nothing but the select box reads it (and
  Python's order of a list that holds NaN depends on where the NaN stands).
\<close>

definition anos_of :: "(string \<Rightarrow> datetime option) \<Rightarrow> history_row list \<Rightarrow> py_exception + int option list" where
  "anos_of parse df_history =
     (case to_datetime parse (map date df_history) of
        Inl e \<Rightarrow> Inl e
      | Inr ts \<Rightarrow> Inr (rev (remdups (rev (map dt_year ts)))))"

text \<open>
  Lines 88-90: the boolean mask keeps the rows whose year is the selected one. NaN
  equals nothing, itself included.
\<close>

definition year_is :: "ano \<Rightarrow> datetime \<Rightarrow> bool" where
  "year_is ano_sel t = (case ano_sel of Todos \<Rightarrow> True | Ano y \<Rightarrow> dt_year t = Some y | AnoNaN \<Rightarrow> False)"

definition aplica_filtro :: "(string \<Rightarrow> datetime option) \<Rightarrow> ano \<Rightarrow> history_row list \<Rightarrow> py_exception + history_row list" where
  "aplica_filtro parse ano_sel df_history =
     (if ano_sel = Todos then Inr df_history
      else
        (case to_datetime parse (map date df_history) of
           Inl e \<Rightarrow> Inl e
         | Inr ts \<Rightarrow> Inr (map fst (filter (\<lambda>(r, t). year_is ano_sel t) (zip df_history ts)))))"

text \<open>
  Lines 84-90 in sequence: the select box is filled from the parsed dates before any
  filter is applied, and nothing around either line catches an exception.
\<close>

definition df_filtered_of :: "(string \<Rightarrow> datetime option) \<Rightarrow> ano \<Rightarrow> history_row list \<Rightarrow> py_exception + history_row list" where
  "df_filtered_of parse ano_sel df_history =
     (case anos_of parse df_history of
        Inl e \<Rightarrow> Inl e
      | Inr anos \<Rightarrow> aplica_filtro parse ano_sel df_history)"

text \<open>
  \<^verbatim>\<open>groupby('player_name')\<close>: one group per name, the groups in ascending order of
  the name (\<^verbatim>\<open>sort=True\<close> is the default), each with its rows.
\<close>

definition groupby_player_name :: "history_row list \<Rightarrow> (string \<times> history_row list) list" where
  "groupby_player_name df =
     map (\<lambda>k. (k, filter (\<lambda>r. player_name r = k) df)) (sort (remdups (map player_name df)))"

definition nunique :: "'a list \<Rightarrow> nat" where
  "nunique xs = length (remdups xs)"

record stat_row =
  s_player_name :: string
  jogos :: nat
  vitorias :: nat

record rate_row = stat_row +
  win_rate :: rat

text \<open>Lines 111-114: \<^verbatim>\<open>nunique\<close> of \<^verbatim>\<open>match_id\<close> and the sum of the booleans \<^verbatim>\<open>is_winner\<close>.\<close>

definition agg :: "string \<times> history_row list \<Rightarrow> stat_row" where
  "agg g = \<lparr>s_player_name = fst g, jogos = nunique (map match_id (snd g)),
            vitorias = length (filter is_winner (snd g))\<rparr>"

text \<open>
  Line 117. The source divides in floating point; the model keeps the exact quotient,
  which orders the rows the same way for counts far below \<open>2 ^ 26\<close>.
\<close>

definition add_win_rate :: "stat_row \<Rightarrow> rate_row" where
  "add_win_rate s = \<lparr>s_player_name = s_player_name s, jogos = jogos s, vitorias = vitorias s,
                     win_rate = (of_nat (vitorias s) / of_nat (jogos s)) * 100\<rparr>"

text \<open>Lines 111-117: the frame \<^verbatim>\<open>stats\<close> as line 118 receives it.\<close>

definition stats_of :: "history_row list \<Rightarrow> rate_row list" where
  "stats_of df_filtered =
     map add_win_rate (filter (\<lambda>s. 5 \<le> jogos s) (map agg (groupby_player_name df_filtered)))"

text \<open>
  \<^verbatim>\<open>sort_values(..., ascending=False)\<close> orders a frame by one column: pandas reverses
  the column, sorts it ascending and reverses the result. The order it leaves among equal
  keys is that of the library's sorting routine; the model takes a stable one.
\<close>

definition sort_values_desc :: "('a \<Rightarrow> 'k::linorder) \<Rightarrow> 'a list \<Rightarrow> 'a list" where
  "sort_values_desc f xs = rev (sort_key f (rev xs))"

text \<open>Line 118.\<close>

definition top_win_rate :: "history_row list \<Rightarrow> rate_row list" where
  "top_win_rate df_filtered = take 10 (sort_values_desc win_rate (stats_of df_filtered))"

text \<open>Line 128: \<^verbatim>\<open>replace('', 'Incolor')\<close>.\<close>

definition replace_empty :: "string \<Rightarrow> string" where
  "replace_empty c = (if c = '''' then ''Incolor'' else c)"

text \<open>\<^verbatim>\<open>value_counts()\<close>: every distinct entry with the number of its occurrences,
  largest first.\<close>

definition value_counts :: "'a list \<Rightarrow> ('a \<times> nat) list" where
  "value_counts xs = sort_values_desc snd (map (\<lambda>v. (v, count_list xs v)) (rev (remdups (rev xs))))"

definition cores_all :: "history_row list \<Rightarrow> (string \<times> nat) list" where
  "cores_all df_filtered = value_counts (map (\<lambda>r. replace_empty (color_identity r)) df_filtered)"

definition cores :: "history_row list \<Rightarrow> (string \<times> nat) list" where
  "cores df_filtered = take 10 (cores_all df_filtered)"

subsection \<open>A parser of ISO dates, to run the dashboard on concrete rows\<close>

text \<open>
  A stand-in for pandas' parser of a string, for the concrete runs below. It answers as
  \<^verbatim>\<open>pd.to_datetime\<close> does on three kinds of string: the strings pandas reads as
  not-a-time (the empty string, \<^verbatim>\<open>NaT\<close>, \<^verbatim>\<open>nan\<close> and their other spellings); the ten characters
  \<^verbatim>\<open>YYYY-MM-DD\<close> of a date that exists and lies from 1677-09-22 to 2262-04-11, the
  range of a nanosecond timestamp; and the string \<^verbatim>\<open>not a date\<close>, on which pandas
  raises. Every other string it refuses, whether pandas would or not: none occurs below.
\<close>

definition digit_of :: "char \<Rightarrow> nat option" where
  "digit_of c = (if 48 \<le> (of_char c :: nat) \<and> (of_char c :: nat) \<le> 57 then Some (of_char c - 48) else None)"

fun number_of :: "nat \<Rightarrow> string \<Rightarrow> nat option" where
  "number_of acc [] = Some acc"
| "number_of acc (c # cs) = (case digit_of c of None \<Rightarrow> None | Some d \<Rightarrow> number_of (10 * acc + d) cs)"

definition leap_year :: "nat \<Rightarrow> bool" where
  "leap_year y = (y mod 4 = 0 \<and> (y mod 100 \<noteq> 0 \<or> y mod 400 = 0))"

definition days_in_month :: "nat \<Rightarrow> nat \<Rightarrow> nat" where
  "days_in_month y m =
     (if m = 2 then (if leap_year y then 29 else 28)
      else if m = 4 \<or> m = 6 \<or> m = 9 \<or> m = 11 then 30 else 31)"

definition in_timestamp_range :: "nat \<Rightarrow> nat \<Rightarrow> nat \<Rightarrow> bool" where
  "in_timestamp_range y m d =
     ((1677 < y \<or> (y = 1677 \<and> (9 < m \<or> (m = 9 \<and> 22 \<le> d))))
      \<and> (y < 2262 \<or> (y = 2262 \<and> (m < 4 \<or> (m = 4 \<and> d \<le> 11)))))"

definition iso_date :: "string \<Rightarrow> datetime option" where
  "iso_date s =
     (if s \<in> set ['''', ''NaT'', ''nat'', ''NAT'', ''nan'', ''NaN'', ''NAN''] then Some NaT
      else if length s = 10 \<and> s ! 4 = CHR ''-'' \<and> s ! 7 = CHR ''-'' then
        (case (number_of 0 (take 4 s), number_of 0 (take 2 (drop 5 s)), number_of 0 (drop 8 s)) of
           (Some y, Some m, Some d) \<Rightarrow>
             (if 1 \<le> m \<and> m \<le> 12 \<and> 1 \<le> d \<and> d \<le> days_in_month y m \<and> in_timestamp_range y m d
              then Some (Timestamp (int y) m d) else None)
         | _ \<Rightarrow> None)
      else None)"

subsection \<open>Concrete frames, to run the model\<close>

text \<open>
  Two players and three decks, with text identifiers; Ana owns two decks of the same
  name, so both have the same display name.
\<close>

definition ex_players :: "player list" where
  "ex_players = [\<lparr>player_id = StrId ''P1'', name = ''Ana''\<rparr>, \<lparr>player_id = StrId ''P2'', name = ''Bo''\<rparr>]"

definition ex_df_decks :: "deck_row list" where
  "ex_df_decks =
     [\<lparr>deck_id = StrId ''D10'', deck_name = ''Atraxa'', deck_player_id = StrId ''P2'',
       owner_name = Some ''Bo'', display_name = ''Atraxa (Bo)''\<rparr>,
      \<lparr>deck_id = StrId ''D11'', deck_name = ''Krenko'', deck_player_id = StrId ''P1'',
       owner_name = Some ''Ana'', display_name = ''Krenko (Ana)''\<rparr>,
      \<lparr>deck_id = StrId ''D12'', deck_name = ''Krenko'', deck_player_id = StrId ''P1'',
       owner_name = Some ''Ana'', display_name = ''Krenko (Ana)''\<rparr>]"

text \<open>The same frames with integer identifiers.\<close>

definition ex_players_int :: "player list" where
  "ex_players_int = [\<lparr>player_id = IntId 1, name = ''Ana''\<rparr>, \<lparr>player_id = IntId 2, name = ''Bo''\<rparr>]"

definition ex_df_decks_int :: "deck_row list" where
  "ex_df_decks_int =
     [\<lparr>deck_id = IntId 10, deck_name = ''Atraxa'', deck_player_id = IntId 2,
       owner_name = Some ''Bo'', display_name = ''Atraxa (Bo)''\<rparr>,
      \<lparr>deck_id = IntId 11, deck_name = ''Krenko'', deck_player_id = IntId 1,
       owner_name = Some ''Ana'', display_name = ''Krenko (Ana)''\<rparr>,
      \<lparr>deck_id = IntId 12, deck_name = ''Krenko'', deck_player_id = IntId 1,
       owner_name = Some ''Ana'', display_name = ''Krenko (Ana)''\<rparr>]"

definition no_faults :: faults where
  "no_faults = \<lparr>matches_insert_raises = False, participants_insert_raises = False\<rparr>"

definition participants_down :: faults where
  "participants_down = \<lparr>matches_insert_raises = False, participants_insert_raises = True\<rparr>"

definition ex_store :: store where
  "ex_store = \<lparr>matches = [], match_participants = [], next_match_id = 1\<rparr>"

definition seat :: "string \<Rightarrow> string \<Rightarrow> bool \<Rightarrow> int \<Rightarrow> participante" where
  "seat n d v t = \<lparr>nome = n, deck_display = d, venceu = v, turno = t\<rparr>"

definition prow :: "int \<Rightarrow> string \<Rightarrow> string \<Rightarrow> bool \<Rightarrow> int \<Rightarrow> participant_row" where
  "prow m p d w t = \<lparr>p_match_id = m, p_player_id = StrId p, p_deck_id = StrId d, p_is_winner = w,
                     p_turn_eliminated = t, rank = (if w then 1 else 0)\<rparr>"

definition hrow :: "int \<Rightarrow> string \<Rightarrow> string \<Rightarrow> bool \<Rightarrow> string \<Rightarrow> history_row" where
  "hrow m d p w c = \<lparr>match_id = m, date = Some d, player_name = p, h_deck_name = ''Atraxa'',
                     is_winner = w, color_identity = c\<rparr>"

text \<open>
  Five matches: Ana wins the first three and Bo the other two; Cy sits in four of them,
  with a deck of no colour.
\<close>

definition ex_history :: "history_row list" where
  "ex_history =
     concat (map (\<lambda>m. [hrow m ''2026-01-10'' ''Ana'' (m \<le> 3) ''WUBG'',
                       hrow m ''2026-01-10'' ''Bo'' (3 < m) ''R'']
                      @ (if m \<le> 4 then [hrow m ''2026-01-10'' ''Cy'' False ''''] else []))
                 [1, 2, 3, 4, 5])"

text \<open>Five matches in which Ana fills two seats, both marked as winner.\<close>

definition ex_two_seats :: "history_row list" where
  "ex_two_seats =
     concat (map (\<lambda>m. [hrow m ''2026-01-10'' ''Ana'' True ''WUBG'',
                       hrow m ''2026-01-10'' ''Ana'' True ''R'',
                       hrow m ''2026-01-10'' ''Bo'' False ''G''])
                 [1, 2, 3, 4, 5])"

definition ex_dated :: "history_row list" where
  "ex_dated = [hrow 3 ''2026-02-01'' ''Ana'' True ''R'', hrow 2 ''2026-01-10'' ''Bo'' True ''G'',
               hrow 1 ''2025-12-30'' ''Ana'' False ''R'']"

text \<open>The same rows, then one with an empty date and one with a null date.\<close>

definition ex_blank :: "history_row list" where
  "ex_blank = ex_dated @ [hrow 4 '''' ''Bo'' False ''G'', (hrow 5 '''' ''Ana'' False ''R'')\<lparr>date := None\<rparr>]"

text \<open>The same rows, then one whose date is no date.\<close>

definition ex_undated :: "history_row list" where
  "ex_undated = ex_dated @ [hrow 4 ''not a date'' ''Bo'' False ''G'']"

section \<open>Properties of the submit block\<close>

lemmas ex_defs = ex_players_def ex_df_decks_def ex_players_int_def ex_df_decks_int_def no_faults_def
  participants_down_def ex_store_def seat_def prow_def

lemmas rm_defs = record_match_def validos_of_def insert_match_def insert_participants_def
  payload_serializable_def lookup_pid_def lookup_did_def values0_def Let_def

lemma lookup_pid_find:
  "lookup_pid df_players nm =
     (case find (\<lambda>r. name r = nm) df_players of None \<Rightarrow> Inl IndexError | Some r \<Rightarrow> Inr (player_id r))"
  by (induction df_players) (simp_all add: lookup_pid_def values0_def)

lemma lookup_did_find:
  "lookup_did df_decks dn =
     (case find (\<lambda>d. display_name d = dn) df_decks of None \<Rightarrow> Inl IndexError | Some d \<Rightarrow> Inr (deck_id d))"
  by (induction df_decks) (simp_all add: lookup_did_def values0_def)

lemma preparar_Inl: "preparar P D mid ps = Inl e \<Longrightarrow> e = IndexError"
  by (induction ps arbitrary: e)
     (auto simp: lookup_pid_find lookup_did_find split: sum.splits option.splits)

lemma preparar_unresolved:
  assumes "p \<in> set ps"
    and "find (\<lambda>r. name r = nome p) P = None \<or> find (\<lambda>d. display_name d = deck_display p) D = None"
  shows "preparar P D mid ps = Inl IndexError"
  using assms
proof (induction ps)
  case Nil
  then show ?case by simp
next
  case (Cons q qs)
  show ?case
  proof (cases "p = q")
    case True
    with Cons.prems(2) show ?thesis
      by (auto simp: lookup_pid_find lookup_did_find split: sum.splits option.splits dest: preparar_Inl)
  next
    case False
    with Cons have "preparar P D mid qs = Inl IndexError" by simp
    then show ?thesis
      by (auto simp: lookup_pid_find lookup_did_find split: sum.splits option.splits)
  qed
qed

lemma preparar_rows:
  "preparar P D mid ps = Inr dados \<Longrightarrow>
   list_all2 (\<lambda>p row. \<exists>r d. find (\<lambda>r. name r = nome p) P = Some r
        \<and> find (\<lambda>d. display_name d = deck_display p) D = Some d
        \<and> row = \<lparr>p_match_id = mid, p_player_id = player_id r, p_deck_id = deck_id d,
                  p_is_winner = venceu p, p_turn_eliminated = turno p,
                  rank = (if venceu p then 1 else 0)\<rparr>) ps dados"
proof (induction ps arbitrary: dados)
  case Nil
  then show ?case by simp
next
  case (Cons q qs)
  then show ?case
    by (auto simp: lookup_pid_find lookup_did_find split: sum.splits option.splits)
qed

text \<open>The loop raises only where a name is not found: with every name found it returns.\<close>

lemma preparar_resolved:
  assumes "\<forall>p \<in> set ps. find (\<lambda>r. name r = nome p) P \<noteq> None
                        \<and> find (\<lambda>d. display_name d = deck_display p) D \<noteq> None"
  shows "\<exists>dados. preparar P D mid ps = Inr dados"
  using assms
proof (induction ps)
  case Nil
  show ?case by simp
next
  case (Cons q qs)
  then obtain dados where "preparar P D mid qs = Inr dados" by auto
  moreover from Cons.prems obtain r d where "find (\<lambda>r. name r = nome q) P = Some r"
    and "find (\<lambda>d. display_name d = deck_display q) D = Some d" by auto
  ultimately show ?case by (simp add: lookup_pid_find lookup_did_find)
qed

lemma record_match_success:
  assumes "record_match fl P D dj notas ps db = (Inr mid, db')"
  shows "2 \<le> length (validos_of ps) \<and> mid = next_match_id db \<and>
         (\<exists>dados. preparar P D mid (validos_of ps) = Inr dados \<and> payload_serializable dados \<and>
            match_participants db' = match_participants db @ dados)"
  using assms
  by (auto simp: record_match_def Let_def insert_match_def insert_participants_def
           split: if_splits sum.splits prod.splits)

text \<open>
  What the call does once the loop has built its rows: the outcome depends on the two
  answers of the store and on the identifiers' type, and on nothing else.
\<close>

lemma record_match_prepared:
  assumes "2 \<le> length (validos_of ps)"
    and "preparar P D (next_match_id db) (validos_of ps) = Inr dados"
  shows "record_match fl P D dj notas ps db =
     (if matches_insert_raises fl then (Inl (ErroAoGravar APIError), db)
      else if \<not> payload_serializable dados then
        (Inl (ErroAoGravar TypeError),
         db\<lparr>matches := matches db @ [\<lparr>m_match_id = next_match_id db, m_date = dj, m_notes = notas\<rparr>],
            next_match_id := next_match_id db + 1\<rparr>)
      else if participants_insert_raises fl then
        (Inl (ErroAoGravar APIError),
         db\<lparr>matches := matches db @ [\<lparr>m_match_id = next_match_id db, m_date = dj, m_notes = notas\<rparr>],
            next_match_id := next_match_id db + 1\<rparr>)
      else
        (Inr (next_match_id db),
         db\<lparr>matches := matches db @ [\<lparr>m_match_id = next_match_id db, m_date = dj, m_notes = notas\<rparr>],
            next_match_id := next_match_id db + 1,
            match_participants := match_participants db @ dados\<rparr>))"
  using assms
  by (simp add: record_match_def Let_def insert_match_def insert_participants_def)

subsection \<open>Integer identifiers\<close>

text \<open>
  With integer identifier columns the payload holds \<^verbatim>\<open>numpy.int64\<close> values: the
  client raises TypeError at line 245, after the Match row was inserted at line 221.
\<close>

lemma integer_identifiers_raise:
  "record_match no_faults ex_players_int ex_df_decks_int ''2026-01-10'' ''''
       [seat ''Ana'' ''Krenko (Ana)'' True 0, seat ''Bo'' ''Atraxa (Bo)'' False 4] ex_store
     = (Inl (ErroAoGravar TypeError),
        \<lparr>matches = [\<lparr>m_match_id = 1, m_date = ''2026-01-10'', m_notes = ''''\<rparr>],
         match_participants = [], next_match_id = 2\<rparr>)"
  by (simp add: ex_defs rm_defs)

lemma success_has_text_identifiers:
  assumes "record_match fl P D dj notas ps db = (Inr mid, db')"
  shows "\<exists>dados. match_participants db' = match_participants db @ dados \<and> payload_serializable dados"
  using record_match_success [OF assms] by blast

subsection \<open>Too few filled seats\<close>

text \<open>
  Claim C3. When fewer than two seats have both a player and a deck selected, the call
  shows the message of line 212 and returns the store as it received it: no row of
  \<^verbatim>\<open>matches\<close> and no row of \<^verbatim>\<open>match_participants\<close> is written, whatever the
  store would have answered.
\<close>

theorem too_few_validos_writes_nothing:
  "length (validos_of participantes) < 2 \<Longrightarrow>
   record_match fl P D dj notas participantes db = (Inl SelecionePeloMenos2, db)"
  by (simp add: record_match_def)

text \<open>One filled seat, one seat with a deck only, one with a player only, one empty.\<close>

theorem too_few_validos_writes_nothing_witness:
  "length (validos_of [seat ''Ana'' ''Krenko (Ana)'' True 0, seat '''' ''Atraxa (Bo)'' False 0,
                       seat ''Bo'' '''' False 0, seat '''' '''' False 0]) < 2
   \<and> record_match no_faults ex_players ex_df_decks ''2026-01-10'' ''''
        [seat ''Ana'' ''Krenko (Ana)'' True 0, seat '''' ''Atraxa (Bo)'' False 0,
         seat ''Bo'' '''' False 0, seat '''' '''' False 0] ex_store
       = (Inl SelecionePeloMenos2, ex_store)"
proof -
  have few: "length (validos_of [seat ''Ana'' ''Krenko (Ana)'' True 0, seat '''' ''Atraxa (Bo)'' False 0,
                       seat ''Bo'' '''' False 0, seat '''' '''' False 0]) < 2"
    by (simp add: validos_of_def seat_def)
  from few too_few_validos_writes_nothing [OF few] show ?thesis by simp
qed

subsection \<open>The Match row stays when the Participants insert fails\<close>

text \<open>
  Claim C6. When the insert into \<^verbatim>\<open>matches\<close> succeeds, every seat resolves, and the
  batch insert into \<^verbatim>\<open>match_participants\<close> raises (the store answers with an error, or
  the client cannot write the identifiers as JSON), the call shows the error of line 252
  with that exception, the new Match row is in the store, and no Participant row is:
  nothing of the first insert is undone.
\<close>

theorem participants_insert_failure_leaves_match:
  assumes "2 \<le> length (validos_of participantes)"
    and "\<not> matches_insert_raises fl"
    and "preparar P D (next_match_id db) (validos_of participantes) = Inr dados"
    and "participants_insert_raises fl \<or> \<not> payload_serializable dados"
  shows "fst (record_match fl P D dj notas participantes db)
           = Inl (ErroAoGravar (if payload_serializable dados then APIError else TypeError))
       \<and> matches (snd (record_match fl P D dj notas participantes db))
           = matches db @ [\<lparr>m_match_id = next_match_id db, m_date = dj, m_notes = notas\<rparr>]
       \<and> match_participants (snd (record_match fl P D dj notas participantes db))
           = match_participants db"
  using assms(2,4) by (auto simp: record_match_prepared [OF assms(1,3)])

text \<open>
  Two calls with the same two seats. In the first the identifiers are text and the store
  answers the second insert with an error; in the second the store would accept every
  insert and the identifiers are integers.
\<close>

theorem participants_insert_failure_leaves_match_witness:
  "2 \<le> length (validos_of [seat ''Ana'' ''Krenko (Ana)'' True 0, seat ''Bo'' ''Atraxa (Bo)'' False 4])
   \<and> \<not> matches_insert_raises participants_down
   \<and> participants_insert_raises participants_down
   \<and> preparar ex_players ex_df_decks (next_match_id ex_store)
        (validos_of [seat ''Ana'' ''Krenko (Ana)'' True 0, seat ''Bo'' ''Atraxa (Bo)'' False 4])
       = Inr [prow 1 ''P1'' ''D11'' True 0, prow 1 ''P2'' ''D10'' False 4]
   \<and> record_match participants_down ex_players ex_df_decks ''2026-01-10'' ''casual''
        [seat ''Ana'' ''Krenko (Ana)'' True 0, seat ''Bo'' ''Atraxa (Bo)'' False 4] ex_store
       = (Inl (ErroAoGravar APIError),
          \<lparr>matches = [\<lparr>m_match_id = 1, m_date = ''2026-01-10'', m_notes = ''casual''\<rparr>],
           match_participants = [], next_match_id = 2\<rparr>)
   \<and> \<not> matches_insert_raises no_faults
   \<and> \<not> payload_serializable
        [\<lparr>p_match_id = 1, p_player_id = IntId 1, p_deck_id = IntId 11, p_is_winner = True,
          p_turn_eliminated = 0, rank = 1\<rparr>,
         \<lparr>p_match_id = 1, p_player_id = IntId 2, p_deck_id = IntId 10, p_is_winner = False,
          p_turn_eliminated = 4, rank = 0\<rparr>]
   \<and> preparar ex_players_int ex_df_decks_int (next_match_id ex_store)
        (validos_of [seat ''Ana'' ''Krenko (Ana)'' True 0, seat ''Bo'' ''Atraxa (Bo)'' False 4])
       = Inr [\<lparr>p_match_id = 1, p_player_id = IntId 1, p_deck_id = IntId 11, p_is_winner = True,
                p_turn_eliminated = 0, rank = 1\<rparr>,
              \<lparr>p_match_id = 1, p_player_id = IntId 2, p_deck_id = IntId 10, p_is_winner = False,
                p_turn_eliminated = 4, rank = 0\<rparr>]
   \<and> record_match no_faults ex_players_int ex_df_decks_int ''2026-01-10'' ''casual''
        [seat ''Ana'' ''Krenko (Ana)'' True 0, seat ''Bo'' ''Atraxa (Bo)'' False 4] ex_store
       = (Inl (ErroAoGravar TypeError),
          \<lparr>matches = [\<lparr>m_match_id = 1, m_date = ''2026-01-10'', m_notes = ''casual''\<rparr>],
           match_participants = [], next_match_id = 2\<rparr>)"
proof -
  let ?ps = "[seat ''Ana'' ''Krenko (Ana)'' True 0, seat ''Bo'' ''Atraxa (Bo)'' False 4]"
  let ?ints = "[\<lparr>p_match_id = 1, p_player_id = IntId 1, p_deck_id = IntId 11, p_is_winner = True,
                  p_turn_eliminated = 0, rank = 1\<rparr>,
                \<lparr>p_match_id = 1, p_player_id = IntId 2, p_deck_id = IntId 10, p_is_winner = False,
                  p_turn_eliminated = 4, rank = 0\<rparr>]"
  have two: "2 \<le> length (validos_of ?ps)"
    by (simp add: validos_of_def seat_def)
  have up: "\<not> matches_insert_raises participants_down"
    and down: "participants_insert_raises participants_down"
    and up': "\<not> matches_insert_raises no_faults"
    by (simp_all add: participants_down_def no_faults_def)
  have rows: "preparar ex_players ex_df_decks (next_match_id ex_store) (validos_of ?ps)
       = Inr [prow 1 ''P1'' ''D11'' True 0, prow 1 ''P2'' ''D10'' False 4]"
    by (simp add: ex_defs rm_defs)
  have text_ids: "payload_serializable [prow 1 ''P1'' ''D11'' True 0, prow 1 ''P2'' ''D10'' False 4]"
    by (simp add: payload_serializable_def prow_def)
  have rows': "preparar ex_players_int ex_df_decks_int (next_match_id ex_store) (validos_of ?ps) = Inr ?ints"
    by (simp add: ex_defs rm_defs)
  have int_ids: "\<not> payload_serializable ?ints"
    by (simp add: payload_serializable_def)
  have nxt: "next_match_id (snd (record_match participants_down ex_players ex_df_decks
                ''2026-01-10'' ''casual'' ?ps ex_store)) = 2"
    and nxt': "next_match_id (snd (record_match no_faults ex_players_int ex_df_decks_int
                ''2026-01-10'' ''casual'' ?ps ex_store)) = 2"
    by (simp_all add: ex_defs rm_defs)
  from participants_insert_failure_leaves_match [OF two up rows disjI1 [OF down],
      where dj = "''2026-01-10''" and notas = "''casual''"] text_ids nxt
  have a: "record_match participants_down ex_players ex_df_decks ''2026-01-10'' ''casual'' ?ps ex_store
       = (Inl (ErroAoGravar APIError),
          \<lparr>matches = [\<lparr>m_match_id = 1, m_date = ''2026-01-10'', m_notes = ''casual''\<rparr>],
           match_participants = [], next_match_id = 2\<rparr>)"
    by (simp add: prod_eq_iff ex_store_def)
  from participants_insert_failure_leaves_match [OF two up' rows' disjI2 [OF int_ids],
      where dj = "''2026-01-10''" and notas = "''casual''"] int_ids nxt'
  have b: "record_match no_faults ex_players_int ex_df_decks_int ''2026-01-10'' ''casual'' ?ps ex_store
       = (Inl (ErroAoGravar TypeError),
          \<lparr>matches = [\<lparr>m_match_id = 1, m_date = ''2026-01-10'', m_notes = ''casual''\<rparr>],
           match_participants = [], next_match_id = 2\<rparr>)"
    by (simp add: prod_eq_iff ex_store_def)
  from two up down rows a up' int_ids rows' b show ?thesis by blast
qed

subsection \<open>The rank of a Participant row\<close>

text \<open>
  Claim C8. For every call that succeeds, the rows appended to \<^verbatim>\<open>match_participants\<close>
  are one per filled seat, in seat order, and each has \<open>is_winner\<close> equal to the seat's
  check box and \<open>rank\<close> 1 when the box is ticked and 0 otherwise.
\<close>

theorem rank_is_winner_flag:
  assumes "record_match fl P D dj notas participantes db = (Inr mid, db')"
  shows "\<exists>dados. match_participants db' = match_participants db @ dados
           \<and> list_all2 (\<lambda>p row. p_is_winner row = venceu p \<and> rank row = (if venceu p then 1 else 0))
                (validos_of participantes) dados"
proof -
  from record_match_success [OF assms] obtain dados where
    d: "preparar P D mid (validos_of participantes) = Inr dados"
       "match_participants db' = match_participants db @ dados" by blast
  from preparar_rows [OF d(1)] have
    "list_all2 (\<lambda>p row. p_is_winner row = venceu p \<and> rank row = (if venceu p then 1 else 0))
       (validos_of participantes) dados"
    by (rule list_all2_mono) auto
  with d(2) show ?thesis by blast
qed

theorem rank_is_winner_flag_witness:
  "record_match no_faults ex_players ex_df_decks ''2026-01-10'' ''''
       [seat ''Bo'' ''Atraxa (Bo)'' False 7, seat '''' '''' False 0,
        seat ''Ana'' ''Krenko (Ana)'' True 0, seat '''' '''' False 0] ex_store
     = (Inr 1, \<lparr>matches = [\<lparr>m_match_id = 1, m_date = ''2026-01-10'', m_notes = ''''\<rparr>],
                match_participants =
                  [\<lparr>p_match_id = 1, p_player_id = StrId ''P2'', p_deck_id = StrId ''D10'',
                    p_is_winner = False, p_turn_eliminated = 7, rank = 0\<rparr>,
                   \<lparr>p_match_id = 1, p_player_id = StrId ''P1'', p_deck_id = StrId ''D11'',
                    p_is_winner = True, p_turn_eliminated = 0, rank = 1\<rparr>],
                next_match_id = 2\<rparr>)
   \<and> (\<exists>dados. [\<lparr>p_match_id = 1, p_player_id = StrId ''P2'', p_deck_id = StrId ''D10'',
                    p_is_winner = False, p_turn_eliminated = 7, rank = 0\<rparr>,
                  \<lparr>p_match_id = 1, p_player_id = StrId ''P1'', p_deck_id = StrId ''D11'',
                    p_is_winner = True, p_turn_eliminated = 0, rank = 1\<rparr>]
                 = match_participants ex_store @ dados
        \<and> list_all2 (\<lambda>p row. p_is_winner row = venceu p \<and> rank row = (if venceu p then 1 else 0))
             (validos_of [seat ''Bo'' ''Atraxa (Bo)'' False 7, seat '''' '''' False 0,
                          seat ''Ana'' ''Krenko (Ana)'' True 0, seat '''' '''' False 0]) dados)"
proof -
  have run: "record_match no_faults ex_players ex_df_decks ''2026-01-10'' ''''
       [seat ''Bo'' ''Atraxa (Bo)'' False 7, seat '''' '''' False 0,
        seat ''Ana'' ''Krenko (Ana)'' True 0, seat '''' '''' False 0] ex_store
     = (Inr 1, \<lparr>matches = [\<lparr>m_match_id = 1, m_date = ''2026-01-10'', m_notes = ''''\<rparr>],
                match_participants =
                  [\<lparr>p_match_id = 1, p_player_id = StrId ''P2'', p_deck_id = StrId ''D10'',
                    p_is_winner = False, p_turn_eliminated = 7, rank = 0\<rparr>,
                   \<lparr>p_match_id = 1, p_player_id = StrId ''P1'', p_deck_id = StrId ''D11'',
                    p_is_winner = True, p_turn_eliminated = 0, rank = 1\<rparr>],
                next_match_id = 2\<rparr>)"
    by (simp add: ex_defs rm_defs)
  from rank_is_winner_flag [OF run] run show ?thesis by simp
qed

subsection \<open>Names that match no record, or several\<close>

text \<open>
  Claim C1, as the spec states it: a seat whose player name or deck display name matches
  no record or more than one record makes the call fail. It does not hold for several
  matches. Below, the display name \<^verbatim>\<open>Krenko (Ana)\<close> matches two rows of the decks frame,
  and the call succeeds with the first of them, deck D11.
\<close>

theorem ambiguous_display_name_counterexample:
  "map deck_id (filter (\<lambda>d. display_name d = ''Krenko (Ana)'') ex_df_decks) = [StrId ''D11'', StrId ''D12'']
   \<and> record_match no_faults ex_players ex_df_decks ''2026-01-10'' ''''
        [seat ''Ana'' ''Krenko (Ana)'' True 0, seat ''Bo'' ''Atraxa (Bo)'' False 4,
         seat '''' '''' False 0, seat '''' '''' False 0] ex_store
     = (Inr 1, \<lparr>matches = [\<lparr>m_match_id = 1, m_date = ''2026-01-10'', m_notes = ''''\<rparr>],
                match_participants =
                  [\<lparr>p_match_id = 1, p_player_id = StrId ''P1'', p_deck_id = StrId ''D11'',
                    p_is_winner = True, p_turn_eliminated = 0, rank = 1\<rparr>,
                   \<lparr>p_match_id = 1, p_player_id = StrId ''P2'', p_deck_id = StrId ''D10'',
                    p_is_winner = False, p_turn_eliminated = 4, rank = 0\<rparr>],
                next_match_id = 2\<rparr>)"
  by (simp add: ex_defs rm_defs)

text \<open>
  Claim C1, amended. Let at least two seats be filled. If a filled seat's player name or
  deck display name matches no record, the call fails with the error of line 252 (with
  the IndexError of the lookup, or the store's error when the insert into
  \<^verbatim>\<open>matches\<close> raised first), and no Participant row is written. If every name of
  every filled seat matches a record, one or several, each name is resolved to the first
  record of the frame that matches it, and the outcome is that of these rows: the call
  succeeds and inserts exactly them, unless the store answers an insert with an error or
  the client cannot write the identifiers as JSON. A name that matches several records
  never makes the call fail.
\<close>

theorem resolution_zero_fails_many_takes_first:
  assumes "2 \<le> length (validos_of participantes)"
  shows "((\<exists>p \<in> set (validos_of participantes).
             find (\<lambda>r. name r = nome p) P = None \<or> find (\<lambda>d. display_name d = deck_display p) D = None)
          \<longrightarrow> fst (record_match fl P D dj notas participantes db)
                = Inl (ErroAoGravar (if matches_insert_raises fl then APIError else IndexError))
            \<and> match_participants (snd (record_match fl P D dj notas participantes db))
                = match_participants db)
       \<and> ((\<forall>p \<in> set (validos_of participantes).
             find (\<lambda>r. name r = nome p) P \<noteq> None \<and> find (\<lambda>d. display_name d = deck_display p) D \<noteq> None)
          \<longrightarrow> (\<exists>dados.
                 list_all2 (\<lambda>p row. \<exists>r d.
                     find (\<lambda>r. name r = nome p) P = Some r
                   \<and> find (\<lambda>d. display_name d = deck_display p) D = Some d
                   \<and> row = \<lparr>p_match_id = next_match_id db, p_player_id = player_id r, p_deck_id = deck_id d,
                             p_is_winner = venceu p, p_turn_eliminated = turno p,
                             rank = (if venceu p then 1 else 0)\<rparr>)
                   (validos_of participantes) dados
               \<and> record_match fl P D dj notas participantes db =
                   (if matches_insert_raises fl then (Inl (ErroAoGravar APIError), db)
                    else if \<not> payload_serializable dados then
                      (Inl (ErroAoGravar TypeError),
                       db\<lparr>matches := matches db @ [\<lparr>m_match_id = next_match_id db, m_date = dj, m_notes = notas\<rparr>],
                          next_match_id := next_match_id db + 1\<rparr>)
                    else if participants_insert_raises fl then
                      (Inl (ErroAoGravar APIError),
                       db\<lparr>matches := matches db @ [\<lparr>m_match_id = next_match_id db, m_date = dj, m_notes = notas\<rparr>],
                          next_match_id := next_match_id db + 1\<rparr>)
                    else
                      (Inr (next_match_id db),
                       db\<lparr>matches := matches db @ [\<lparr>m_match_id = next_match_id db, m_date = dj, m_notes = notas\<rparr>],
                          next_match_id := next_match_id db + 1,
                          match_participants := match_participants db @ dados\<rparr>))))"
proof (intro conjI impI)
  assume "\<exists>p \<in> set (validos_of participantes).
             find (\<lambda>r. name r = nome p) P = None \<or> find (\<lambda>d. display_name d = deck_display p) D = None"
  then have u: "\<And>mid. preparar P D mid (validos_of participantes) = Inl IndexError"
    by (auto intro: preparar_unresolved)
  from assms u show "fst (record_match fl P D dj notas participantes db)
                = Inl (ErroAoGravar (if matches_insert_raises fl then APIError else IndexError))"
    by (simp add: record_match_def Let_def insert_match_def)
  from assms u show "match_participants (snd (record_match fl P D dj notas participantes db))
                = match_participants db"
    by (simp add: record_match_def Let_def insert_match_def)
next
  assume "\<forall>p \<in> set (validos_of participantes).
             find (\<lambda>r. name r = nome p) P \<noteq> None \<and> find (\<lambda>d. display_name d = deck_display p) D \<noteq> None"
  from preparar_resolved [OF this] obtain dados where
    d: "preparar P D (next_match_id db) (validos_of participantes) = Inr dados" by blast
  note rows = preparar_rows [OF d]
  note outcome = record_match_prepared [OF assms d, of fl dj notas]
  from rows outcome show "\<exists>dados.
                 list_all2 (\<lambda>p row. \<exists>r d.
                     find (\<lambda>r. name r = nome p) P = Some r
                   \<and> find (\<lambda>d. display_name d = deck_display p) D = Some d
                   \<and> row = \<lparr>p_match_id = next_match_id db, p_player_id = player_id r, p_deck_id = deck_id d,
                             p_is_winner = venceu p, p_turn_eliminated = turno p,
                             rank = (if venceu p then 1 else 0)\<rparr>)
                   (validos_of participantes) dados
               \<and> record_match fl P D dj notas participantes db =
                   (if matches_insert_raises fl then (Inl (ErroAoGravar APIError), db)
                    else if \<not> payload_serializable dados then
                      (Inl (ErroAoGravar TypeError),
                       db\<lparr>matches := matches db @ [\<lparr>m_match_id = next_match_id db, m_date = dj, m_notes = notas\<rparr>],
                          next_match_id := next_match_id db + 1\<rparr>)
                    else if participants_insert_raises fl then
                      (Inl (ErroAoGravar APIError),
                       db\<lparr>matches := matches db @ [\<lparr>m_match_id = next_match_id db, m_date = dj, m_notes = notas\<rparr>],
                          next_match_id := next_match_id db + 1\<rparr>)
                    else
                      (Inr (next_match_id db),
                       db\<lparr>matches := matches db @ [\<lparr>m_match_id = next_match_id db, m_date = dj, m_notes = notas\<rparr>],
                          next_match_id := next_match_id db + 1,
                          match_participants := match_participants db @ dados\<rparr>))"
    by (intro exI [of _ dados] conjI)
qed

text \<open>
  Two calls with two filled seats each. In the first, no player is named \<^verbatim>\<open>Cy\<close>: the
  call fails with the IndexError, and the Match row it inserted before stays. In the
  second, every name is found, \<^verbatim>\<open>Krenko (Ana)\<close> twice (decks D11 and D12): the call
  succeeds with deck D11.
\<close>

theorem resolution_zero_fails_many_takes_first_witness:
  "2 \<le> length (validos_of [seat ''Cy'' ''Krenko (Ana)'' True 0, seat ''Bo'' ''Atraxa (Bo)'' False 4])
   \<and> find (\<lambda>r. name r = nome (seat ''Cy'' ''Krenko (Ana)'' True 0)) ex_players = None
   \<and> record_match no_faults ex_players ex_df_decks ''2026-01-10'' ''''
        [seat ''Cy'' ''Krenko (Ana)'' True 0, seat ''Bo'' ''Atraxa (Bo)'' False 4] ex_store
       = (Inl (ErroAoGravar IndexError),
          \<lparr>matches = [\<lparr>m_match_id = 1, m_date = ''2026-01-10'', m_notes = ''''\<rparr>],
           match_participants = [], next_match_id = 2\<rparr>)
   \<and> 2 \<le> length (validos_of [seat ''Ana'' ''Krenko (Ana)'' True 0, seat ''Bo'' ''Atraxa (Bo)'' False 4])
   \<and> list_all (\<lambda>p. find (\<lambda>r. name r = nome p) ex_players \<noteq> None
                  \<and> find (\<lambda>d. display_name d = deck_display p) ex_df_decks \<noteq> None)
        (validos_of [seat ''Ana'' ''Krenko (Ana)'' True 0, seat ''Bo'' ''Atraxa (Bo)'' False 4])
   \<and> length (filter (\<lambda>d. display_name d = ''Krenko (Ana)'') ex_df_decks) = 2
   \<and> record_match no_faults ex_players ex_df_decks ''2026-01-10'' ''''
        [seat ''Ana'' ''Krenko (Ana)'' True 0, seat ''Bo'' ''Atraxa (Bo)'' False 4] ex_store
       = (Inr 1,
          \<lparr>matches = [\<lparr>m_match_id = 1, m_date = ''2026-01-10'', m_notes = ''''\<rparr>],
           match_participants = [prow 1 ''P1'' ''D11'' True 0, prow 1 ''P2'' ''D10'' False 4],
           next_match_id = 2\<rparr>)"
proof -
  let ?bad = "[seat ''Cy'' ''Krenko (Ana)'' True 0, seat ''Bo'' ''Atraxa (Bo)'' False 4]"
  let ?good = "[seat ''Ana'' ''Krenko (Ana)'' True 0, seat ''Bo'' ''Atraxa (Bo)'' False 4]"
  have two_bad: "2 \<le> length (validos_of ?bad)" and two_good: "2 \<le> length (validos_of ?good)"
    by (simp_all add: validos_of_def seat_def)
  have none: "find (\<lambda>r. name r = nome (seat ''Cy'' ''Krenko (Ana)'' True 0)) ex_players = None"
    by (simp add: ex_players_def seat_def)
  have cy: "seat ''Cy'' ''Krenko (Ana)'' True 0 \<in> set (validos_of ?bad)"
    by (simp add: validos_of_def seat_def)
  have stays: "snd (record_match no_faults ex_players ex_df_decks ''2026-01-10'' '''' ?bad ex_store)
       = \<lparr>matches = [\<lparr>m_match_id = 1, m_date = ''2026-01-10'', m_notes = ''''\<rparr>],
           match_participants = [], next_match_id = 2\<rparr>"
    by (simp add: ex_defs rm_defs)
  have up: "\<not> matches_insert_raises no_faults" "\<not> participants_insert_raises no_faults"
    by (simp_all add: no_faults_def)
  have found: "list_all (\<lambda>p. find (\<lambda>r. name r = nome p) ex_players \<noteq> None
                  \<and> find (\<lambda>d. display_name d = deck_display p) ex_df_decks \<noteq> None) (validos_of ?good)"
    by (simp add: ex_defs validos_of_def)
  have twice: "length (filter (\<lambda>d. display_name d = ''Krenko (Ana)'') ex_df_decks) = 2"
    by (simp add: ex_defs)
  from resolution_zero_fails_many_takes_first [OF two_bad,
      where P = ex_players and D = ex_df_decks and fl = no_faults and db = ex_store
        and dj = "''2026-01-10''" and notas = "''''"] cy none up
  have "fst (record_match no_faults ex_players ex_df_decks ''2026-01-10'' '''' ?bad ex_store)
          = Inl (ErroAoGravar IndexError)"
    by auto
  with stays have fails: "record_match no_faults ex_players ex_df_decks ''2026-01-10'' '''' ?bad ex_store
       = (Inl (ErroAoGravar IndexError),
          \<lparr>matches = [\<lparr>m_match_id = 1, m_date = ''2026-01-10'', m_notes = ''''\<rparr>],
           match_participants = [], next_match_id = 2\<rparr>)"
    by (simp add: prod_eq_iff)
  from found have found': "\<forall>p \<in> set (validos_of ?good).
        find (\<lambda>r. name r = nome p) ex_players \<noteq> None
      \<and> find (\<lambda>d. display_name d = deck_display p) ex_df_decks \<noteq> None"
    by (simp only: list_all_iff)
  from resolution_zero_fails_many_takes_first [OF two_good,
      where P = ex_players and D = ex_df_decks and fl = no_faults and db = ex_store
        and dj = "''2026-01-10''" and notas = "''''"] found'
  obtain dados where
    rows: "list_all2 (\<lambda>p row. \<exists>r d.
                     find (\<lambda>r. name r = nome p) ex_players = Some r
                   \<and> find (\<lambda>d. display_name d = deck_display p) ex_df_decks = Some d
                   \<and> row = \<lparr>p_match_id = next_match_id ex_store, p_player_id = player_id r,
                             p_deck_id = deck_id d,
                             p_is_winner = venceu p, p_turn_eliminated = turno p,
                             rank = (if venceu p then 1 else 0)\<rparr>)
                   (validos_of ?good) dados"
    and outcome: "record_match no_faults ex_players ex_df_decks ''2026-01-10'' '''' ?good ex_store =
                   (if matches_insert_raises no_faults then (Inl (ErroAoGravar APIError), ex_store)
                    else if \<not> payload_serializable dados then
                      (Inl (ErroAoGravar TypeError),
                       ex_store\<lparr>matches := matches ex_store @ [\<lparr>m_match_id = next_match_id ex_store,
                                      m_date = ''2026-01-10'', m_notes = ''''\<rparr>],
                          next_match_id := next_match_id ex_store + 1\<rparr>)
                    else if participants_insert_raises no_faults then
                      (Inl (ErroAoGravar APIError),
                       ex_store\<lparr>matches := matches ex_store @ [\<lparr>m_match_id = next_match_id ex_store,
                                      m_date = ''2026-01-10'', m_notes = ''''\<rparr>],
                          next_match_id := next_match_id ex_store + 1\<rparr>)
                    else
                      (Inr (next_match_id ex_store),
                       ex_store\<lparr>matches := matches ex_store @ [\<lparr>m_match_id = next_match_id ex_store,
                                      m_date = ''2026-01-10'', m_notes = ''''\<rparr>],
                          next_match_id := next_match_id ex_store + 1,
                          match_participants := match_participants ex_store @ dados\<rparr>))"
    by blast
  from rows have dados: "dados = [prow 1 ''P1'' ''D11'' True 0, prow 1 ''P2'' ''D10'' False 4]"
    by (auto simp: validos_of_def ex_defs list_all2_Cons1)
  have "payload_serializable [prow 1 ''P1'' ''D11'' True 0, prow 1 ''P2'' ''D10'' False 4]"
    by (simp add: payload_serializable_def prow_def)
  with outcome up dados
  have first: "record_match no_faults ex_players ex_df_decks ''2026-01-10'' '''' ?good ex_store
       = (Inr 1,
          \<lparr>matches = [\<lparr>m_match_id = 1, m_date = ''2026-01-10'', m_notes = ''''\<rparr>],
           match_participants = [prow 1 ''P1'' ''D11'' True 0, prow 1 ''P2'' ''D10'' False 4],
           next_match_id = 2\<rparr>)"
    by (simp add: ex_store_def)
  from two_bad none fails two_good found twice first show ?thesis by blast
qed

subsection \<open>The deck of a row and the player of a row\<close>

text \<open>
  Claim C2, as the spec states it: the deck of every inserted row belongs, by the decks
  frame's owner column, to the player of that row. It does not hold. Below, the first
  seat selects the player Ana and the deck \<^verbatim>\<open>Atraxa (Bo)\<close>; the call succeeds and its
  first row pairs player P1 with deck D10, whose owner is player P2.
\<close>

theorem deck_of_another_player_counterexample:
  "record_match no_faults ex_players ex_df_decks ''2026-01-10'' ''''
        [seat ''Ana'' ''Atraxa (Bo)'' True 0, seat ''Bo'' ''Krenko (Ana)'' False 4,
         seat '''' '''' False 0, seat '''' '''' False 0] ex_store
     = (Inr 1, \<lparr>matches = [\<lparr>m_match_id = 1, m_date = ''2026-01-10'', m_notes = ''''\<rparr>],
                match_participants =
                  [\<lparr>p_match_id = 1, p_player_id = StrId ''P1'', p_deck_id = StrId ''D10'',
                    p_is_winner = True, p_turn_eliminated = 0, rank = 1\<rparr>,
                   \<lparr>p_match_id = 1, p_player_id = StrId ''P2'', p_deck_id = StrId ''D11'',
                    p_is_winner = False, p_turn_eliminated = 4, rank = 0\<rparr>],
                next_match_id = 2\<rparr>)
   \<and> map deck_player_id (filter (\<lambda>d. deck_id d = StrId ''D10'') ex_df_decks) = [StrId ''P2'']"
  by (simp add: ex_defs rm_defs)

text \<open>
  Claim C2, amended. For every call that succeeds, each inserted row has the identifier
  of the first player whose name is the seat's player name and the identifier of the
  first deck whose display name is the seat's deck display name, found by two lookups
  that do not consult each other. The deck of every row belongs to the player of that
  row if, in every filled seat, the deck selected is one of the player selected.
\<close>

theorem deck_owner_only_when_selected_together:
  assumes "record_match fl P D dj notas participantes db = (Inr mid, db')"
  shows "\<exists>dados. match_participants db' = match_participants db @ dados
       \<and> list_all2 (\<lambda>p row. \<exists>r d.
             find (\<lambda>r. name r = nome p) P = Some r \<and> p_player_id row = player_id r
           \<and> find (\<lambda>d. display_name d = deck_display p) D = Some d \<and> p_deck_id row = deck_id d)
           (validos_of participantes) dados
       \<and> ((\<forall>p \<in> set (validos_of participantes). \<forall>r d.
              find (\<lambda>r. name r = nome p) P = Some r \<longrightarrow>
              find (\<lambda>d. display_name d = deck_display p) D = Some d \<longrightarrow> deck_player_id d = player_id r)
          \<longrightarrow> (\<forall>row \<in> set dados. \<exists>d \<in> set D. deck_id d = p_deck_id row \<and> deck_player_id d = p_player_id row))"
proof -
  let ?R = "\<lambda>p row. \<exists>r d.
             find (\<lambda>r. name r = nome p) P = Some r \<and> p_player_id row = player_id r
           \<and> find (\<lambda>d. display_name d = deck_display p) D = Some d \<and> p_deck_id row = deck_id d"
  from record_match_success [OF assms] obtain dados where
    d: "preparar P D mid (validos_of participantes) = Inr dados"
       "match_participants db' = match_participants db @ dados" by blast
  from preparar_rows [OF d(1)] have R: "list_all2 ?R (validos_of participantes) dados"
    by (rule list_all2_mono) auto
  have "\<forall>row \<in> set dados. \<exists>d \<in> set D. deck_id d = p_deck_id row \<and> deck_player_id d = p_player_id row"
    if sel: "\<forall>p \<in> set (validos_of participantes). \<forall>r d.
              find (\<lambda>r. name r = nome p) P = Some r \<longrightarrow>
              find (\<lambda>d. display_name d = deck_display p) D = Some d \<longrightarrow> deck_player_id d = player_id r"
  proof
    fix row
    assume "row \<in> set dados"
    then obtain i where i: "i < length dados" "row = dados ! i" by (auto simp: in_set_conv_nth)
    from R i have len: "i < length (validos_of participantes)"
      and Ri: "?R (validos_of participantes ! i) row"
      by (simp_all add: list_all2_conv_all_nth)
    from Ri obtain r d where
      r: "find (\<lambda>r. name r = nome (validos_of participantes ! i)) P = Some r" "p_player_id row = player_id r"
      and dd: "find (\<lambda>d. display_name d = deck_display (validos_of participantes ! i)) D = Some d"
          "p_deck_id row = deck_id d"
      by blast
    from len have "validos_of participantes ! i \<in> set (validos_of participantes)" by simp
    with sel r(1) dd(1) have "deck_player_id d = player_id r" by blast
    moreover from dd(1) have "d \<in> set D" by (auto simp: find_Some_iff)
    ultimately show "\<exists>d \<in> set D. deck_id d = p_deck_id row \<and> deck_player_id d = p_player_id row"
      using r(2) dd(2) by auto
  qed
  with d(2) R show ?thesis by blast
qed

text \<open>
  A call in which each seat selects a deck of its own player: the hypothesis on the
  selection holds, and the deck of each of the two rows is owned by the row's player.
\<close>

theorem deck_owner_only_when_selected_together_witness:
  "record_match no_faults ex_players ex_df_decks ''2026-01-10'' ''''
       [seat ''Ana'' ''Krenko (Ana)'' True 0, seat ''Bo'' ''Atraxa (Bo)'' False 4] ex_store
     = (Inr 1, \<lparr>matches = [\<lparr>m_match_id = 1, m_date = ''2026-01-10'', m_notes = ''''\<rparr>],
                match_participants = [prow 1 ''P1'' ''D11'' True 0, prow 1 ''P2'' ''D10'' False 4],
                next_match_id = 2\<rparr>)
   \<and> list_all (\<lambda>p. map_option player_id (find (\<lambda>r. name r = nome p) ex_players)
                   = map_option deck_player_id (find (\<lambda>d. display_name d = deck_display p) ex_df_decks))
        (validos_of [seat ''Ana'' ''Krenko (Ana)'' True 0, seat ''Bo'' ''Atraxa (Bo)'' False 4])
   \<and> list_all (\<lambda>row. list_ex (\<lambda>d. deck_id d = p_deck_id row \<and> deck_player_id d = p_player_id row) ex_df_decks)
        [prow 1 ''P1'' ''D11'' True 0, prow 1 ''P2'' ''D10'' False 4]"
proof -
  let ?ps = "[seat ''Ana'' ''Krenko (Ana)'' True 0, seat ''Bo'' ''Atraxa (Bo)'' False 4]"
  let ?rows = "[prow 1 ''P1'' ''D11'' True 0, prow 1 ''P2'' ''D10'' False 4]"
  have run: "record_match no_faults ex_players ex_df_decks ''2026-01-10'' '''' ?ps ex_store
     = (Inr 1, \<lparr>matches = [\<lparr>m_match_id = 1, m_date = ''2026-01-10'', m_notes = ''''\<rparr>],
                match_participants = ?rows, next_match_id = 2\<rparr>)"
    by (simp add: ex_defs rm_defs)
  have sel: "list_all (\<lambda>p. map_option player_id (find (\<lambda>r. name r = nome p) ex_players)
                   = map_option deck_player_id (find (\<lambda>d. display_name d = deck_display p) ex_df_decks))
        (validos_of ?ps)"
    by (simp add: ex_defs validos_of_def)
  then have sel': "\<forall>p \<in> set (validos_of ?ps). \<forall>r d.
              find (\<lambda>r. name r = nome p) ex_players = Some r \<longrightarrow>
              find (\<lambda>d. display_name d = deck_display p) ex_df_decks = Some d \<longrightarrow>
              deck_player_id d = player_id r"
    by (auto simp: list_all_iff)
  from deck_owner_only_when_selected_together [OF run] sel'
  have "\<forall>row \<in> set ?rows. \<exists>d \<in> set ex_df_decks. deck_id d = p_deck_id row \<and> deck_player_id d = p_player_id row"
    by (auto simp: ex_store_def)
  then have "list_all (\<lambda>row. list_ex (\<lambda>d. deck_id d = p_deck_id row \<and> deck_player_id d = p_player_id row) ex_df_decks) ?rows"
    by (simp only: list_all_iff list_ex_iff)
  with run sel show ?thesis by blast
qed

subsection \<open>The same player in two seats\<close>

text \<open>
  Claim C10. The submit block compares no seat with another. Here Ana fills two seats
  with the same deck and Bo the third; the identifiers are text. The call succeeds and
  inserts three rows, one per filled seat, two of them with player P1 and deck D11.
\<close>

theorem same_player_in_two_seats:
  "record_match no_faults ex_players ex_df_decks ''2026-01-10'' ''''
       [seat ''Ana'' ''Krenko (Ana)'' True 0, seat ''Ana'' ''Krenko (Ana)'' False 5,
        seat ''Bo'' ''Atraxa (Bo)'' False 4, seat '''' '''' False 0] ex_store
     = (Inr 1, \<lparr>matches = [\<lparr>m_match_id = 1, m_date = ''2026-01-10'', m_notes = ''''\<rparr>],
                match_participants =
                  [\<lparr>p_match_id = 1, p_player_id = StrId ''P1'', p_deck_id = StrId ''D11'',
                    p_is_winner = True, p_turn_eliminated = 0, rank = 1\<rparr>,
                   \<lparr>p_match_id = 1, p_player_id = StrId ''P1'', p_deck_id = StrId ''D11'',
                    p_is_winner = False, p_turn_eliminated = 5, rank = 0\<rparr>,
                   \<lparr>p_match_id = 1, p_player_id = StrId ''P2'', p_deck_id = StrId ''D10'',
                    p_is_winner = False, p_turn_eliminated = 4, rank = 0\<rparr>],
                next_match_id = 2\<rparr>)
   \<and> length (validos_of [seat ''Ana'' ''Krenko (Ana)'' True 0, seat ''Ana'' ''Krenko (Ana)'' False 5,
                         seat ''Bo'' ''Atraxa (Bo)'' False 4, seat '''' '''' False 0]) = 3"
  by (simp add: ex_defs rm_defs)

section \<open>Properties of the dashboard\<close>

subsection \<open>The year filter\<close>

lemma those_map_parse:
  "those (map f xs) = (if list_all (\<lambda>x. f x \<noteq> None) xs then Some (map (\<lambda>x. the (f x)) xs) else None)"
  by (induction xs) (auto split: option.splits)

lemma to_datetime_dates:
  "to_datetime parse (map date df) =
     (if list_all (\<lambda>r. to_datetime_cell parse (date r) \<noteq> None) df
      then Inr (map (\<lambda>r. the (to_datetime_cell parse (date r))) df)
      else Inl ValueError)"
  by (simp add: to_datetime_def those_map_parse list_all_iff comp_def)

lemma mask_rows:
  "map fst (filter (\<lambda>(r, t). Q t) (zip df (map g df))) = filter (\<lambda>r. Q (g r)) df"
  by (induction df) simp_all

text \<open>
  Claim C5, as the spec states it: a row whose date cannot be parsed is left out of the
  result and the aggregation goes on. It does not hold. With one row dated
  \<^verbatim>\<open>not a date\<close> after three well-dated ones, the filter for 2026 raises; it does not
  return the two rows of 2026. Nor does the selection of every year return anything.
\<close>

theorem unparsable_date_counterexample:
  "iso_date ''not a date'' = None
   \<and> df_filtered_of iso_date (Ano 2026) ex_undated = Inl ValueError
   \<and> df_filtered_of iso_date (Ano 2026) ex_undated
       \<noteq> Inr [hrow 3 ''2026-02-01'' ''Ana'' True ''R'', hrow 2 ''2026-01-10'' ''Bo'' True ''G'']
   \<and> df_filtered_of iso_date Todos ex_undated = Inl ValueError"
  by code_simp

text \<open>
  Claim C5, amended. Whatever pandas' parser of a date string is: a row whose date is
  null or the empty string is read as not-a-time, which raises nothing and has no year;
  a row whose date is a non-empty string that the parser rejects makes the parse raise.
  If no row's date makes the parse raise, the period filter returns exactly the rows
  whose date's calendar year is the selected year, in their order (so never a row dated
  not-a-time), or all rows when \<^verbatim>\<open>Todos\<close> is selected. If some row's date makes the
  parse raise, the filter raises whatever is selected, and no aggregation is computed.
\<close>

theorem year_filter_keeps_year_or_raises:
  "(list_all (\<lambda>r. to_datetime_cell parse (date r) \<noteq> None) df_history \<longrightarrow>
      df_filtered_of parse ano_sel df_history =
        Inr (filter (\<lambda>r. case ano_sel of Todos \<Rightarrow> True
                          | Ano y \<Rightarrow> Option.bind (to_datetime_cell parse (date r)) dt_year = Some y
                          | AnoNaN \<Rightarrow> False) df_history))
   \<and> (\<not> list_all (\<lambda>r. to_datetime_cell parse (date r) \<noteq> None) df_history \<longrightarrow>
      df_filtered_of parse ano_sel df_history = Inl ValueError)
   \<and> (to_datetime_cell parse c = None \<longleftrightarrow> (\<exists>s. c = Some s \<and> s \<noteq> '''' \<and> parse s = None))
   \<and> to_datetime_cell parse None = Some NaT
   \<and> to_datetime_cell parse (Some '''') = Some NaT
   \<and> dt_year NaT = None"
proof (intro conjI impI)
  assume ok: "list_all (\<lambda>r. to_datetime_cell parse (date r) \<noteq> None) df_history"
  have "filter (\<lambda>r. dt_year (the (to_datetime_cell parse (date r))) = Some y) df_history
        = filter (\<lambda>r. Option.bind (to_datetime_cell parse (date r)) dt_year = Some y) df_history" for y
    using ok by (intro filter_cong refl) (auto simp: list_all_iff)
  with ok show "df_filtered_of parse ano_sel df_history =
        Inr (filter (\<lambda>r. case ano_sel of Todos \<Rightarrow> True
                          | Ano y \<Rightarrow> Option.bind (to_datetime_cell parse (date r)) dt_year = Some y
                          | AnoNaN \<Rightarrow> False) df_history)"
    by (cases ano_sel)
       (simp_all add: df_filtered_of_def anos_of_def aplica_filtro_def to_datetime_dates
                      mask_rows year_is_def)
next
  assume "\<not> list_all (\<lambda>r. to_datetime_cell parse (date r) \<noteq> None) df_history"
  then show "df_filtered_of parse ano_sel df_history = Inl ValueError"
    by (simp add: df_filtered_of_def anos_of_def to_datetime_dates)
next
  show "to_datetime_cell parse c = None \<longleftrightarrow> (\<exists>s. c = Some s \<and> s \<noteq> '''' \<and> parse s = None)"
    by (cases c) (simp_all add: to_datetime_cell_def)
  show "to_datetime_cell parse None = Some NaT" "to_datetime_cell parse (Some '''') = Some NaT"
    by (simp_all add: to_datetime_cell_def)
  show "dt_year NaT = None" by simp
qed

text \<open>
  Three well-dated rows, filtered for 2026 and for every year; the same rows followed by
  one with an empty date and one with a null date, which the filter for 2026 leaves out
  and the selection of every year keeps; and the three rows followed by one whose date
  the parser rejects.
\<close>

theorem year_filter_keeps_year_or_raises_witness:
  "list_all (\<lambda>r. to_datetime_cell iso_date (date r) \<noteq> None) ex_dated
   \<and> df_filtered_of iso_date (Ano 2026) ex_dated
       = Inr [hrow 3 ''2026-02-01'' ''Ana'' True ''R'', hrow 2 ''2026-01-10'' ''Bo'' True ''G'']
   \<and> df_filtered_of iso_date Todos ex_dated = Inr ex_dated
   \<and> list_all (\<lambda>r. to_datetime_cell iso_date (date r) \<noteq> None) ex_blank
   \<and> map date (drop 3 ex_blank) = [Some '''', None]
   \<and> df_filtered_of iso_date (Ano 2026) ex_blank
       = Inr [hrow 3 ''2026-02-01'' ''Ana'' True ''R'', hrow 2 ''2026-01-10'' ''Bo'' True ''G'']
   \<and> df_filtered_of iso_date Todos ex_blank = Inr ex_blank
   \<and> \<not> list_all (\<lambda>r. to_datetime_cell iso_date (date r) \<noteq> None) ex_undated
   \<and> df_filtered_of iso_date (Ano 2025) ex_undated = Inl ValueError"
proof -
  have ok: "list_all (\<lambda>r. to_datetime_cell iso_date (date r) \<noteq> None) ex_dated"
    by code_simp
  have ok': "list_all (\<lambda>r. to_datetime_cell iso_date (date r) \<noteq> None) ex_blank"
    by code_simp
  have blank: "map date (drop 3 ex_blank) = [Some '''', None]"
    by code_simp
  have bad: "\<not> list_all (\<lambda>r. to_datetime_cell iso_date (date r) \<noteq> None) ex_undated"
    by code_simp
  have sel: "filter (\<lambda>r. case Ano 2026 of Todos \<Rightarrow> True
                 | Ano y \<Rightarrow> Option.bind (to_datetime_cell iso_date (date r)) dt_year = Some y
                 | AnoNaN \<Rightarrow> False) ex_dated
      = [hrow 3 ''2026-02-01'' ''Ana'' True ''R'', hrow 2 ''2026-01-10'' ''Bo'' True ''G'']"
    by code_simp
  have sel': "filter (\<lambda>r. case Ano 2026 of Todos \<Rightarrow> True
                 | Ano y \<Rightarrow> Option.bind (to_datetime_cell iso_date (date r)) dt_year = Some y
                 | AnoNaN \<Rightarrow> False) ex_blank
      = [hrow 3 ''2026-02-01'' ''Ana'' True ''R'', hrow 2 ''2026-01-10'' ''Bo'' True ''G'']"
    by code_simp
  from year_filter_keeps_year_or_raises [of iso_date ex_dated "Ano 2026", THEN conjunct1, THEN mp, OF ok]
  have a: "df_filtered_of iso_date (Ano 2026) ex_dated
       = Inr [hrow 3 ''2026-02-01'' ''Ana'' True ''R'', hrow 2 ''2026-01-10'' ''Bo'' True ''G'']"
    by (simp only: sel)
  from year_filter_keeps_year_or_raises [of iso_date ex_dated Todos, THEN conjunct1, THEN mp, OF ok]
  have b: "df_filtered_of iso_date Todos ex_dated = Inr ex_dated"
    by simp
  from year_filter_keeps_year_or_raises [of iso_date ex_blank "Ano 2026", THEN conjunct1, THEN mp, OF ok']
  have a': "df_filtered_of iso_date (Ano 2026) ex_blank
       = Inr [hrow 3 ''2026-02-01'' ''Ana'' True ''R'', hrow 2 ''2026-01-10'' ''Bo'' True ''G'']"
    by (simp only: sel')
  from year_filter_keeps_year_or_raises [of iso_date ex_blank Todos, THEN conjunct1, THEN mp, OF ok']
  have b': "df_filtered_of iso_date Todos ex_blank = Inr ex_blank"
    by simp
  from year_filter_keeps_year_or_raises [of iso_date ex_undated "Ano 2025",
      THEN conjunct2, THEN conjunct1, THEN mp, OF bad]
  have c: "df_filtered_of iso_date (Ano 2025) ex_undated = Inl ValueError" .
  from ok a b ok' blank a' b' bad c show ?thesis by blast
qed

subsection \<open>The colour frequencies\<close>

lemma set_sort_values_desc [simp]: "set (sort_values_desc f xs) = set xs"
  by (simp add: sort_values_desc_def)

lemma mset_sort_values_desc [simp]: "mset (sort_values_desc f xs) = mset xs"
  by (simp add: sort_values_desc_def)

lemma sorted_sort_values_desc: "sorted_wrt (\<ge>) (map f (sort_values_desc f xs))"
proof -
  have "sorted (map f (sort_key f (rev xs)))" by (rule sorted_sort_key)
  then show ?thesis
    by (simp add: sort_values_desc_def rev_map [symmetric] sorted_wrt_rev)
qed

lemma distinct_map_sort_values_desc:
  "distinct (map g (sort_values_desc f xs)) = distinct (map g xs)"
proof -
  have "mset (map g (sort_values_desc f xs)) = mset (map g xs)" by simp
  then show ?thesis by (rule mset_eq_imp_distinct_iff)
qed

lemma sum_list_value_counts: "sum_list (map snd (value_counts xs)) = length xs"
proof -
  have "mset (map snd (value_counts xs))
        = mset (map snd (map (\<lambda>v. (v, count_list xs v)) (rev (remdups (rev xs)))))"
    unfolding value_counts_def by (simp only: mset_map mset_sort_values_desc)
  also have "map snd (map (\<lambda>v. (v, count_list xs v)) (rev (remdups (rev xs))))
        = map (count_list xs) (rev (remdups (rev xs)))"
    by simp
  finally have "mset (map snd (value_counts xs)) = mset (map (count_list xs) (rev (remdups (rev xs))))" .
  then have "sum_list (map snd (value_counts xs)) = sum_list (map (count_list xs) (rev (remdups (rev xs))))"
    by (metis sum_mset_sum_list)
  also have "\<dots> = sum (count_list xs) (set xs)"
    by (simp add: sum_list_distinct_conv_sum_set rev_map [symmetric])
  also have "\<dots> = length xs" by (rule sum_count_set) simp_all
  finally show ?thesis .
qed

lemma value_counts_entries:
  "(c, n) \<in> set (value_counts xs) \<longleftrightarrow> c \<in> set xs \<and> n = count_list xs c"
  by (auto simp: value_counts_def)

lemma distinct_value_counts: "distinct (map fst (value_counts xs))"
  by (simp add: value_counts_def distinct_map_sort_values_desc comp_def)

lemma count_list_map_filter: "count_list (map g xs) c = length (filter (\<lambda>x. g x = c) xs)"
  by (induction xs) simp_all

text \<open>
  Claim C7. The colour frequency has one entry per colour identity that occurs, the empty
  string counted under the sentinel \<^verbatim>\<open>Incolor\<close> (the source's word for colourless) and
  never as a category of its own; the count of an entry is the number of rows of that
  category; and the counts of all categories, before the cut to ten, sum to the number of
  rows of the filtered collection.
\<close>

theorem color_counts_sum_to_rows:
  "sum_list (map snd (cores_all df_filtered)) = length df_filtered
   \<and> distinct (map fst (cores_all df_filtered))
   \<and> (\<forall>(c, n) \<in> set (cores_all df_filtered).
        c \<noteq> '''' \<and> 0 < n \<and>
        n = length (filter (\<lambda>r. replace_empty (color_identity r) = c) df_filtered))
   \<and> replace_empty '''' = ''Incolor''"
proof (intro conjI)
  show "sum_list (map snd (cores_all df_filtered)) = length df_filtered"
    by (simp add: cores_all_def sum_list_value_counts)
  show "distinct (map fst (cores_all df_filtered))"
    by (simp add: cores_all_def distinct_value_counts)
  show "replace_empty '''' = ''Incolor''"
    by (simp add: replace_empty_def)
  show "\<forall>(c, n) \<in> set (cores_all df_filtered).
        c \<noteq> '''' \<and> 0 < n \<and>
        n = length (filter (\<lambda>r. replace_empty (color_identity r) = c) df_filtered)"
  proof (clarify, intro conjI)
    fix c n
    assume "(c, n) \<in> set (cores_all df_filtered)"
    then have c: "c \<in> set (map (\<lambda>r. replace_empty (color_identity r)) df_filtered)"
      and n: "n = count_list (map (\<lambda>r. replace_empty (color_identity r)) df_filtered) c"
      by (simp_all add: cores_all_def value_counts_entries)
    from c show "c \<noteq> ''''" by (auto simp: replace_empty_def split: if_splits)
    from c n show "0 < n" by (metis count_list_0_iff gr0I)
    from n show "n = length (filter (\<lambda>r. replace_empty (color_identity r) = c) df_filtered)"
      by (simp add: count_list_map_filter)
  qed
qed

text \<open>The fourteen rows of the example history: five of each of two colours and four
  of no colour.\<close>

theorem color_counts_sum_to_rows_witness:
  "cores_all ex_history = [(''WUBG'', 5), (''R'', 5), (''Incolor'', 4)]
   \<and> length ex_history = 14
   \<and> sum_list (map snd (cores_all ex_history)) = length ex_history
   \<and> length (filter (\<lambda>r. replace_empty (color_identity r) = ''Incolor'') ex_history) = 4"
proof -
  have run: "cores_all ex_history = [(''WUBG'', 5), (''R'', 5), (''Incolor'', 4)]"
    by code_simp
  have len: "length ex_history = 14"
    by code_simp
  from color_counts_sum_to_rows [of ex_history] run
  have "sum_list (map snd (cores_all ex_history)) = length ex_history
      \<and> 4 = length (filter (\<lambda>r. replace_empty (color_identity r) = ''Incolor'') ex_history)"
    by simp
  with run len show ?thesis by simp
qed

subsection \<open>The win-rate ranking\<close>

lemma nunique_card: "nunique xs = card (set xs)"
  by (simp add: nunique_def length_remdups_card_conv)

lemma agg_fields:
  "jogos (agg (k, filter (\<lambda>r. player_name r = k) df)) = card (match_id ` {r \<in> set df. player_name r = k})"
  "vitorias (agg (k, filter (\<lambda>r. player_name r = k) df)) = length (filter (\<lambda>r. player_name r = k \<and> is_winner r) df)"
  "s_player_name (agg (k, g)) = k"
  by (simp_all add: agg_def nunique_card conj_commute)

lemma add_win_rate_fields [simp]:
  "s_player_name (add_win_rate s) = s_player_name s"
  "jogos (add_win_rate s) = jogos s"
  "vitorias (add_win_rate s) = vitorias s"
  "win_rate (add_win_rate s) = of_nat (vitorias s) / of_nat (jogos s) * 100"
  by (simp_all add: add_win_rate_def)

lemma stats_of_row:
  assumes "s \<in> set (stats_of df)"
  shows "s_player_name s \<in> player_name ` set df"
    and "jogos s = card (match_id ` {r \<in> set df. player_name r = s_player_name s})"
    and "vitorias s = length (filter (\<lambda>r. player_name r = s_player_name s \<and> is_winner r) df)"
    and "win_rate s = of_nat (vitorias s) / of_nat (jogos s) * 100"
    and "5 \<le> jogos s"
proof -
  from assms obtain k where k: "k \<in> player_name ` set df"
    and s: "s = add_win_rate (agg (k, filter (\<lambda>r. player_name r = k) df))"
    and j: "5 \<le> jogos (agg (k, filter (\<lambda>r. player_name r = k) df))"
    by (auto simp: stats_of_def groupby_player_name_def)
  from k s show "s_player_name s \<in> player_name ` set df" by (simp add: agg_fields)
  from s show "jogos s = card (match_id ` {r \<in> set df. player_name r = s_player_name s})"
    by (simp add: agg_fields)
  from s show "vitorias s = length (filter (\<lambda>r. player_name r = s_player_name s \<and> is_winner r) df)"
    by (simp add: agg_fields)
  from s show "win_rate s = of_nat (vitorias s) / of_nat (jogos s) * 100" by simp
  from s j show "5 \<le> jogos s" by simp
qed

lemma distinct_stats_of: "distinct (map s_player_name (stats_of df))"
proof -
  have "distinct (map fst (groupby_player_name df))"
    by (simp add: groupby_player_name_def comp_def)
  then have "distinct (map s_player_name (map agg (groupby_player_name df)))"
    by (simp add: comp_def agg_def)
  then have "distinct (map s_player_name (filter (\<lambda>s. 5 \<le> jogos s) (map agg (groupby_player_name df))))"
    by (rule distinct_map_filter)
  then show ?thesis by (simp add: stats_of_def comp_def)
qed

lemma wins_le_games:
  assumes "distinct (map match_id (filter (\<lambda>r. player_name r = k \<and> is_winner r) df))"
  shows "length (filter (\<lambda>r. player_name r = k \<and> is_winner r) df)
          \<le> card (match_id ` {r \<in> set df. player_name r = k})"
proof -
  have "length (filter (\<lambda>r. player_name r = k \<and> is_winner r) df)
        = length (map match_id (filter (\<lambda>r. player_name r = k \<and> is_winner r) df))" by simp
  also have "\<dots> = card (set (map match_id (filter (\<lambda>r. player_name r = k \<and> is_winner r) df)))"
    using assms by (simp only: distinct_card)
  also have "\<dots> \<le> card (match_id ` {r \<in> set df. player_name r = k})"
    by (rule card_mono) auto
  finally show ?thesis .
qed

text \<open>
  Claim C4, as the spec states it: every player of the ranking has a win rate between 0
  and 100. The upper bound does not hold. In \<open>ex_two_seats\<close> Ana fills two seats of each
  of five matches and both are marked as winner: she has 5 games, 10 wins and a win rate
  of 200.
\<close>

theorem win_rate_above_100_counterexample:
  "top_win_rate ex_two_seats
     = [\<lparr>s_player_name = ''Ana'', jogos = 5, vitorias = 10, win_rate = 200\<rparr>,
        \<lparr>s_player_name = ''Bo'', jogos = 5, vitorias = 0, win_rate = 0\<rparr>]
   \<and> \<not> list_all (\<lambda>s. win_rate s \<le> 100) (top_win_rate ex_two_seats)"
  by code_simp

text \<open>
  Claim C4, amended. The ranking has at most ten entries, in descending order of win
  rate, one per player name. For each entry, \<open>jogos\<close> is the number of distinct match
  identifiers among the player's rows, \<open>vitorias\<close> the number of the player's rows
  with \<open>is_winner\<close> true, and the win rate is \<open>vitorias / jogos * 100\<close>; \<open>jogos\<close> is
  at least 5 and the win rate is at least 0. The win rate is at most 100 for every
  player who has no two winning rows in the same match.
\<close>

theorem win_rate_ranking:
  "length (top_win_rate df_filtered) \<le> 10
   \<and> sorted_wrt (\<ge>) (map win_rate (top_win_rate df_filtered))
   \<and> distinct (map s_player_name (top_win_rate df_filtered))
   \<and> (\<forall>s \<in> set (top_win_rate df_filtered).
         s_player_name s \<in> player_name ` set df_filtered
       \<and> jogos s = card (match_id ` {r \<in> set df_filtered. player_name r = s_player_name s})
       \<and> vitorias s = length (filter (\<lambda>r. player_name r = s_player_name s \<and> is_winner r) df_filtered)
       \<and> win_rate s = of_nat (vitorias s) / of_nat (jogos s) * 100
       \<and> 5 \<le> jogos s
       \<and> 0 \<le> win_rate s
       \<and> (distinct (map match_id (filter (\<lambda>r. player_name r = s_player_name s \<and> is_winner r) df_filtered))
            \<longrightarrow> win_rate s \<le> 100))"
proof (intro conjI ballI impI)
  show "length (top_win_rate df_filtered) \<le> 10"
    by (simp add: top_win_rate_def)
  have "sorted_wrt (\<ge>) (take 10 (map win_rate (sort_values_desc win_rate (stats_of df_filtered))))"
    by (rule sorted_wrt_take) (rule sorted_sort_values_desc)
  then show "sorted_wrt (\<ge>) (map win_rate (top_win_rate df_filtered))"
    by (simp add: top_win_rate_def take_map)
  have "distinct (map s_player_name (sort_values_desc win_rate (stats_of df_filtered)))"
    by (simp add: distinct_map_sort_values_desc distinct_stats_of)
  then have "distinct (take 10 (map s_player_name (sort_values_desc win_rate (stats_of df_filtered))))"
    by (rule distinct_take)
  then show "distinct (map s_player_name (top_win_rate df_filtered))"
    by (simp add: top_win_rate_def take_map)
next
  fix s
  assume "s \<in> set (top_win_rate df_filtered)"
  then have "s \<in> set (sort_values_desc win_rate (stats_of df_filtered))"
    unfolding top_win_rate_def by (rule in_set_takeD)
  then have s: "s \<in> set (stats_of df_filtered)" by simp
  note r = stats_of_row [OF s]
  show "s_player_name s \<in> player_name ` set df_filtered" by (rule r(1))
  show "jogos s = card (match_id ` {r \<in> set df_filtered. player_name r = s_player_name s})" by (rule r(2))
  show "vitorias s = length (filter (\<lambda>r. player_name r = s_player_name s \<and> is_winner r) df_filtered)"
    by (rule r(3))
  show "win_rate s = of_nat (vitorias s) / of_nat (jogos s) * 100" by (rule r(4))
  show "5 \<le> jogos s" by (rule r(5))
  show "0 \<le> win_rate s" by (simp add: r(4))
  {
    assume "distinct (map match_id (filter (\<lambda>r. player_name r = s_player_name s \<and> is_winner r) df_filtered))"
    then have "vitorias s \<le> jogos s"
      unfolding r(2) r(3) by (rule wins_le_games)
    moreover from r(5) have "0 < jogos s" by simp
    ultimately have "(of_nat (vitorias s) :: rat) / of_nat (jogos s) \<le> 1"
      by (simp add: divide_le_eq_1)
    then have "(of_nat (vitorias s) :: rat) / of_nat (jogos s) * 100 \<le> 1 * 100"
      by (rule mult_right_mono) simp
    then show "win_rate s \<le> 100" by (simp only: r(4) mult_1)
  }
qed

text \<open>
  The example history: Ana with 5 games and 3 wins is ranked at 60, Bo with 5 games and
  2 wins at 40, and Cy with 4 games is left out. Ana's three winning rows are of three
  matches, and her rate is at most 100.
\<close>

theorem win_rate_ranking_witness:
  "top_win_rate ex_history
     = [\<lparr>s_player_name = ''Ana'', jogos = 5, vitorias = 3, win_rate = 60\<rparr>,
        \<lparr>s_player_name = ''Bo'', jogos = 5, vitorias = 2, win_rate = 40\<rparr>]
   \<and> distinct (map match_id (filter (\<lambda>r. player_name r = ''Ana'' \<and> is_winner r) ex_history))
   \<and> win_rate \<lparr>s_player_name = ''Ana'', jogos = 5, vitorias = 3, win_rate = 60\<rparr> \<le> 100
   \<and> card (match_id ` {r \<in> set ex_history. player_name r = ''Ana''}) = 5
   \<and> ''Cy'' \<in> player_name ` set ex_history"
proof -
  let ?ana = "\<lparr>s_player_name = ''Ana'', jogos = 5, vitorias = 3, win_rate = 60\<rparr>"
  have run: "top_win_rate ex_history
     = [?ana, \<lparr>s_player_name = ''Bo'', jogos = 5, vitorias = 2, win_rate = 40\<rparr>]"
    by code_simp
  have once: "distinct (map match_id (filter (\<lambda>r. player_name r = ''Ana'' \<and> is_winner r) ex_history))"
    by code_simp
  have cy: "''Cy'' \<in> player_name ` set ex_history"
    by (simp add: ex_history_def hrow_def)
  from run have mem: "?ana \<in> set (top_win_rate ex_history)" by simp
  note rows = win_rate_ranking [of ex_history, THEN conjunct2, THEN conjunct2, THEN conjunct2]
  from bspec [OF rows mem] once
  have "win_rate ?ana \<le> 100
      \<and> card (match_id ` {r \<in> set ex_history. player_name r = ''Ana''}) = 5"
    by simp
  with run once cy show ?thesis by simp
qed

subsection \<open>The ranking as a function of the rows\<close>

lemma agg_mset:
  assumes "mset df = mset df'"
  shows "agg (k, filter (\<lambda>r. player_name r = k) df) = agg (k, filter (\<lambda>r. player_name r = k) df')"
proof -
  from assms have st: "set df = set df'" by (rule mset_eq_setD)
  from assms have "mset (filter is_winner (filter (\<lambda>r. player_name r = k) df))
                 = mset (filter is_winner (filter (\<lambda>r. player_name r = k) df'))"
    by (simp only: mset_filter)
  then have "length (filter is_winner (filter (\<lambda>r. player_name r = k) df))
           = length (filter is_winner (filter (\<lambda>r. player_name r = k) df'))"
    by (rule mset_eq_length)
  moreover have "nunique (map match_id (filter (\<lambda>r. player_name r = k) df))
               = nunique (map match_id (filter (\<lambda>r. player_name r = k) df'))"
    by (simp add: nunique_card st)
  ultimately show ?thesis by (simp add: agg_def)
qed

lemma groupby_keys_mset:
  assumes "mset df = mset df'"
  shows "sort (remdups (map player_name df)) = sort (remdups (map player_name df'))"
proof -
  from assms have "set df = set df'" by (rule mset_eq_setD)
  then have "set (map player_name df) = set (map player_name df')" by simp
  then have "sorted_list_of_set (set (map player_name df)) = sorted_list_of_set (set (map player_name df'))"
    by (rule arg_cong)
  then show ?thesis by (simp only: sorted_list_of_set_sort_remdups)
qed

lemma stats_of_mset:
  assumes "mset df = mset df'"
  shows "stats_of df = stats_of df'"
proof -
  have "map agg (groupby_player_name df) = map agg (groupby_player_name df')"
    by (simp add: groupby_player_name_def groupby_keys_mset [OF assms] comp_def agg_mset [OF assms])
  then show ?thesis by (simp add: stats_of_def)
qed

text \<open>
  Claim C9. The ranking is a function of the filtered collection, and of nothing else:
  two runs on collections with the same rows, in whatever order the store returned them,
  hand the same frame \<^verbatim>\<open>stats\<close>, in the same order, to the sort of line 118 (the groups
  come in ascending order of the player name, and the two counts of a group do not
  depend on the order of its rows), and so produce the same ranking in the same order,
  players of equal win rate included.
\<close>

theorem top_win_rate_deterministic:
  "mset df = mset df' \<Longrightarrow> stats_of df = stats_of df' \<and> top_win_rate df = top_win_rate df'"
proof -
  assume "mset df = mset df'"
  then have "stats_of df = stats_of df'" by (rule stats_of_mset)
  then show ?thesis by (simp add: top_win_rate_def)
qed

text \<open>The example history and the same rows in reverse order.\<close>

theorem top_win_rate_deterministic_witness:
  "mset ex_history = mset (rev ex_history)
   \<and> ex_history \<noteq> rev ex_history
   \<and> stats_of ex_history = stats_of (rev ex_history)
   \<and> top_win_rate ex_history = top_win_rate (rev ex_history)"
proof -
  have same: "mset ex_history = mset (rev ex_history)" by simp
  have other: "ex_history \<noteq> rev ex_history" by code_simp
  from top_win_rate_deterministic [OF same] same other show ?thesis by simp
qed

end
